theory Spec2Isabelle
  imports Main
begin

section \<open>Go strings and the library functions the addons package calls\<close>

text \<open>
  A Go string is a sequence of bytes, here a \<^typ>\<open>string\<close> (a list of 8-bit
  characters). The functions of this section are the ones of Go's standard library that
  \<open>Template\<close>, \<open>filterYAMLfiles\<close> and \<open>validateNoMissingFiles\<close> call:
  \<open>filepath.Ext\<close>, \<open>strings.TrimSuffix\<close>, \<open>strings.TrimSpace\<close>,
  \<open>strings.Split\<close> and \<open>strings.Join\<close>.
\<close>

subsection \<open>filepath.Ext and strings.TrimSuffix\<close>

text \<open>
  \<open>filepath.Ext\<close> walks the path from its last byte towards the first, stops at a path
  separator (\<open>/\<close>, as on Linux and macOS) and returns the text from the first dot it
  meets to the end; without such a dot it returns the empty string. \<open>Ext_scan\<close> is
  that loop: its first argument holds the bytes not yet visited, last one first, and its
  second argument the bytes already visited.
\<close>

fun Ext_scan :: "string \<Rightarrow> string \<Rightarrow> string" where
  "Ext_scan [] seen = []"
| "Ext_scan (c # r) seen =
     (if c = CHR ''/'' then []
      else if c = CHR ''.'' then c # seen
      else Ext_scan r (c # seen))"

definition Ext :: "string \<Rightarrow> string" where
  "Ext path = Ext_scan (rev path) []"

definition HasSuffix :: "string \<Rightarrow> string \<Rightarrow> bool" where
  "HasSuffix s suffix \<longleftrightarrow>
     length suffix \<le> length s \<and> drop (length s - length suffix) s = suffix"

definition TrimSuffix :: "string \<Rightarrow> string \<Rightarrow> string" where
  "TrimSuffix s suffix =
     (if HasSuffix s suffix then take (length s - length suffix) s else s)"

subsection \<open>strings.TrimSpace\<close>

text \<open>
  \<open>strings.TrimSpace\<close> removes the leading and the trailing white space of a string,
  as Unicode defines it (\<open>unicode.IsSpace\<close>). The string is decoded as UTF-8, and a
  byte sequence that is not valid UTF-8 decodes to U+FFFD, which is not white space. So
  a white space character is one of the six ASCII bytes of \<open>asciiSpace\<close> or one of the
  UTF-8 encodings listed in \<open>unicodeSpaces\<close>: U+0085, U+00A0, U+1680, U+2000 to
  U+200A, U+2028, U+2029, U+202F, U+205F and U+3000.
\<close>

definition asciiSpace :: "char \<Rightarrow> bool" where
  "asciiSpace c \<longleftrightarrow>
     c = CHR 0x09 \<or> c = CHR 0x0A \<or> c = CHR 0x0B \<or> c = CHR 0x0C \<or> c = CHR 0x0D \<or> c = CHR 0x20"

definition unicodeSpaces :: "string list" where
  "unicodeSpaces =
     [[CHR 0xC2, CHR 0x85], [CHR 0xC2, CHR 0xA0], [CHR 0xE1, CHR 0x9A, CHR 0x80],
      [CHR 0xE2, CHR 0x80, CHR 0x80], [CHR 0xE2, CHR 0x80, CHR 0x81],
      [CHR 0xE2, CHR 0x80, CHR 0x82], [CHR 0xE2, CHR 0x80, CHR 0x83],
      [CHR 0xE2, CHR 0x80, CHR 0x84], [CHR 0xE2, CHR 0x80, CHR 0x85],
      [CHR 0xE2, CHR 0x80, CHR 0x86], [CHR 0xE2, CHR 0x80, CHR 0x87],
      [CHR 0xE2, CHR 0x80, CHR 0x88], [CHR 0xE2, CHR 0x80, CHR 0x89],
      [CHR 0xE2, CHR 0x80, CHR 0x8A], [CHR 0xE2, CHR 0x80, CHR 0xA8],
      [CHR 0xE2, CHR 0x80, CHR 0xA9], [CHR 0xE2, CHR 0x80, CHR 0xAF],
      [CHR 0xE2, CHR 0x81, CHR 0x9F], [CHR 0xE3, CHR 0x80, CHR 0x80]]"

text \<open>
  The number of bytes of the white space character a string starts with, and of the one
  it ends with; 0 when it starts (ends) with something else or is empty. \<open>TrimLeft\<close>
  and \<open>TrimRight\<close> drop such characters one at a time until none is left, which is what
  \<open>strings.TrimFunc\<close> with \<open>unicode.IsSpace\<close> computes (the ASCII fast path of
  \<open>TrimSpace\<close> gives the same result).
\<close>

definition leadingSpace :: "string \<Rightarrow> nat" where
  "leadingSpace s =
     (case s of
        [] \<Rightarrow> 0
      | c # _ \<Rightarrow>
          if asciiSpace c then 1
          else (case find (\<lambda>w. take (length w) s = w) unicodeSpaces of
                  Some w \<Rightarrow> length w
                | None \<Rightarrow> 0))"

definition trailingSpace :: "string \<Rightarrow> nat" where
  "trailingSpace s =
     (if s = [] then 0
      else if asciiSpace (last s) then 1
      else (case find (\<lambda>w. HasSuffix s w) unicodeSpaces of
              Some w \<Rightarrow> length w
            | None \<Rightarrow> 0))"

function TrimLeft :: "string \<Rightarrow> string" where
  "TrimLeft s = (if leadingSpace s = 0 then s else TrimLeft (drop (leadingSpace s) s))"
  by pat_completeness auto
termination
proof (relation "measure length")
  show "wf (measure length)" by simp
next
  fix s :: string
  assume "leadingSpace s \<noteq> 0"
  moreover from this have "s \<noteq> []" by (auto simp: leadingSpace_def)
  ultimately show "(drop (leadingSpace s) s, s) \<in> measure length" by simp
qed

function TrimRight :: "string \<Rightarrow> string" where
  "TrimRight s =
     (if trailingSpace s = 0 then s else TrimRight (take (length s - trailingSpace s) s))"
  by pat_completeness auto
termination
proof (relation "measure length")
  show "wf (measure length)" by simp
next
  fix s :: string
  assume "trailingSpace s \<noteq> 0"
  moreover from this have "s \<noteq> []" by (auto simp: trailingSpace_def)
  ultimately show "(take (length s - trailingSpace s) s, s) \<in> measure length" by simp
qed

declare TrimLeft.simps [simp del] TrimRight.simps [simp del]

definition TrimSpace :: "string \<Rightarrow> string" where
  "TrimSpace s = TrimRight (TrimLeft s)"

subsection \<open>strings.Split and strings.Join\<close>

text \<open>
  \<open>strings.Split\<close> cuts a string at every occurrence of the separator and returns the
  pieces in order; a string without the separator (the empty string too) gives a single
  piece. The package only splits at the one-byte separator \<open>"\n"\<close>, so the separator
  is a byte here. \<open>strings.Join\<close> is the usual concatenation with a separator.
\<close>

function Split :: "string \<Rightarrow> char \<Rightarrow> string list" where
  "Split s sep =
     (case dropWhile (\<lambda>c. c \<noteq> sep) s of
        [] \<Rightarrow> [s]
      | _ # rest \<Rightarrow> takeWhile (\<lambda>c. c \<noteq> sep) s # Split rest sep)"
  by pat_completeness auto
termination
proof (relation "measure (\<lambda>(s, sep). length s)")
  show "wf (measure (\<lambda>(s, sep). length s))" by simp
next
  fix s :: string and sep c :: char and rest :: string
  assume eq: "dropWhile (\<lambda>c. c \<noteq> sep) s = c # rest"
  have "length (dropWhile (\<lambda>c. c \<noteq> sep) s) \<le> length s"
    by (rule length_dropWhile_le)
  with eq have "length rest < length s" by simp
  then show "((rest, sep), (s, sep)) \<in> measure (\<lambda>(s, sep). length s)" by simp
qed

declare Split.simps [simp del]

fun Join :: "string list \<Rightarrow> string \<Rightarrow> string" where
  "Join [] sep = []"
| "Join [e] sep = e"
| "Join (e # es) sep = e @ sep @ Join es sep"

section \<open>The addons package\<close>

subsection \<open>Constants, errors and collaborators\<close>

definition addonsTemplatePath :: string where
  "addonsTemplatePath = ''addons/cf.yml''"

definition paramsFileWithoutExt :: string where
  "paramsFileWithoutExt = ''params''"

definition outputsFileWithoutExt :: string where
  "outputsFileWithoutExt = ''outputs''"

definition resourcesFiles :: string where
  "resourcesFiles = ''resources''"

text \<open>
  An error value that comes from a collaborator (the workspace or the template parser) is
  known to this package only through Go's \<open>error\<close> interface, that is by the text its
  \<open>Error\<close> method returns.
\<close>

datatype go_error = GoError (Error: string)

text \<open>
  The errors \<open>Template\<close> returns: the package's \<open>ErrDirNotExist\<close> struct (declared
  in another file of the package) with the two fields \<open>SvcName\<close> and \<open>ParentErr\<close>
  that \<open>Template\<close> sets; the value \<open>fmt.Errorf\<close> builds from a format
  with \<open>%w\<close> (its message and the wrapped error); the value \<open>fmt.Errorf\<close> builds
  from a format without \<open>%w\<close> (its message); and an error of the parser, returned as
  it is.
\<close>

datatype error =
    ErrDirNotExist string go_error
  | wrapError string go_error
  | errorString string
  | Returned go_error

text \<open>
  The \<open>workspaceReader\<close> interface, the one method of \<open>template.Parser\<close> that is called,
  the fields of the anonymous struct handed to it, and the \<open>Addons\<close> struct. The parser's
  result stands for the text \<open>content.String()\<close> of the content it returns.
\<close>

record workspaceReader =
  ReadAddonsDir :: "string \<Rightarrow> go_error + string list"
  ReadAddonsFile :: "string \<Rightarrow> string \<Rightarrow> go_error + string"

record templateData =
  SvcName :: string
  Parameters :: "string list"
  Resources :: "string list"
  Outputs :: "string list"

record Parser =
  Parse :: "string \<Rightarrow> templateData \<Rightarrow> go_error + string"

record Addons =
  svcName :: string
  parser :: Parser
  ws :: workspaceReader

text \<open>
  The calls a run of \<open>Template\<close> makes on its collaborators, in the order it makes them.
\<close>

datatype event =
    ReadAddonsDirCall string
  | ReadAddonsFileCall string string
  | ParseCall string templateData

subsection \<open>filterYAMLfiles and contains\<close>

definition yamlExtensions :: "string list" where
  "yamlExtensions = [''.yaml'', ''.yml'']"

fun contains :: "string list \<Rightarrow> string \<Rightarrow> bool" where
  "contains [] el = False"
| "contains (item # arr) el = (if item = el then True else contains arr el)"

fun filterYAMLfiles :: "string list \<Rightarrow> string list" where
  "filterYAMLfiles [] = []"
| "filterYAMLfiles (f # files) =
     (if \<not> contains yamlExtensions (Ext f) then filterYAMLfiles files
      else f # filterYAMLfiles files)"

subsection \<open>validateNoMissingFiles\<close>

text \<open>
  \<open>addonFiles\<close> is a Go \<open>map[string]string\<close>: reading a key that is absent gives the
  empty string.
\<close>

definition lookup :: "(string \<rightharpoonup> string) \<Rightarrow> string \<Rightarrow> string" where
  "lookup f k = (case f k of None \<Rightarrow> [] | Some v \<Rightarrow> v)"

definition resourceRequirement :: string where
  "resourceRequirement = ''at least one resource YAML file such as \"s3-bucket.yaml\"''"

text \<open>
  \<open>missingFiles f\<close> is the local slice \<open>missingFiles\<close> of \<open>validateNoMissingFiles\<close>
  once the three checks have run, each appending at the end.
\<close>

definition missingFiles :: "(string \<rightharpoonup> string) \<Rightarrow> string list" where
  "missingFiles f =
     (let missing = [];
          missing = (if lookup f paramsFileWithoutExt = []
                     then missing @ [paramsFileWithoutExt @ ''.yaml''] else missing);
          missing = (if lookup f outputsFileWithoutExt = []
                     then missing @ [outputsFileWithoutExt @ ''.yaml''] else missing);
          missing = (if lookup f resourcesFiles = []
                     then missing @ [resourceRequirement] else missing)
      in missing)"

definition validateNoMissingFiles :: "(string \<rightharpoonup> string) \<Rightarrow> error option" where
  "validateNoMissingFiles f =
     (if missingFiles f \<noteq> []
      then Some (errorString
             (''addons directory has missing file(s): '' @ Join (missingFiles f) '', ''))
      else None)"

subsection \<open>Template\<close>

text \<open>
  The body of the loop of \<open>Template\<close> after a file has been read and trimmed: the
  \<open>switch\<close> on the file name without its extension.
\<close>

definition addFile :: "(string \<rightharpoonup> string) \<Rightarrow> string \<Rightarrow> string \<Rightarrow> (string \<rightharpoonup> string)" where
  "addFile addonFiles fileName trimmedContent =
     (let nameWithoutExt = TrimSuffix fileName (Ext fileName)
      in if nameWithoutExt = paramsFileWithoutExt
         then addonFiles(paramsFileWithoutExt \<mapsto> trimmedContent)
         else if nameWithoutExt = outputsFileWithoutExt
         then addonFiles(outputsFileWithoutExt \<mapsto> trimmedContent)
         else addonFiles(resourcesFiles \<mapsto>
                lookup addonFiles resourcesFiles @ trimmedContent @ ''\<newline>''))"

text \<open>
  The loop over the retained file names. It returns the calls made and either the error
  of the first read that fails, wrapped by \<open>fmt.Errorf\<close>, or the map built.
\<close>

fun readAddonsFiles ::
  "workspaceReader \<Rightarrow> string \<Rightarrow> string list \<Rightarrow> (string \<rightharpoonup> string) \<Rightarrow>
     event list \<times> (error + (string \<rightharpoonup> string))" where
  "readAddonsFiles w svc [] addonFiles = ([], Inr addonFiles)"
| "readAddonsFiles w svc (fileName # rest) addonFiles =
     (case ReadAddonsFile w svc fileName of
        Inl e \<Rightarrow>
          ([ReadAddonsFileCall svc fileName],
           Inl (wrapError
                  (''read addons file '' @ fileName @ '' under service '' @ svc @ '': '' @ Error e)
                  e))
      | Inr content \<Rightarrow>
          (case readAddonsFiles w svc rest (addFile addonFiles fileName (TrimSpace content)) of
             (cs, r) \<Rightarrow> (ReadAddonsFileCall svc fileName # cs, r)))"

definition templateDataOf :: "string \<Rightarrow> (string \<rightharpoonup> string) \<Rightarrow> templateData" where
  "templateDataOf svc addonFiles =
     \<lparr>SvcName = svc,
      Parameters = Split (TrimSpace (lookup addonFiles paramsFileWithoutExt)) (CHR 0x0A),
      Resources = Split (TrimSpace (lookup addonFiles resourcesFiles)) (CHR 0x0A),
      Outputs = Split (TrimSpace (lookup addonFiles outputsFileWithoutExt)) (CHR 0x0A)\<rparr>"

text \<open>
  \<open>Template\<close> returns Go's pair of a text and an error (\<open>None\<close> is \<open>nil\<close>), and, in
  front of it, the calls it made on the workspace and on the parser.
\<close>

definition Template :: "Addons \<Rightarrow> event list \<times> (string \<times> error option)" where
  "Template a =
     (case ReadAddonsDir (ws a) (svcName a) of
        Inl err \<Rightarrow>
          ([ReadAddonsDirCall (svcName a)],
           ([], Some (ErrDirNotExist (svcName a) err)))
      | Inr fileNames \<Rightarrow>
          (case readAddonsFiles (ws a) (svcName a) (filterYAMLfiles fileNames) Map.empty of
             (cs, Inl err) \<Rightarrow>
               (ReadAddonsDirCall (svcName a) # cs, ([], Some err))
           | (cs, Inr addonFiles) \<Rightarrow>
               (case validateNoMissingFiles addonFiles of
                  Some err \<Rightarrow>
                    (ReadAddonsDirCall (svcName a) # cs, ([], Some err))
                | None \<Rightarrow>
                    (case Parse (parser a) addonsTemplatePath
                            (templateDataOf (svcName a) addonFiles) of
                       Inl err \<Rightarrow>
                         (ReadAddonsDirCall (svcName a) # cs
                            @ [ParseCall addonsTemplatePath
                                 (templateDataOf (svcName a) addonFiles)],
                          ([], Some (Returned err)))
                     | Inr content \<Rightarrow>
                         (ReadAddonsDirCall (svcName a) # cs
                            @ [ParseCall addonsTemplatePath
                                 (templateDataOf (svcName a) addonFiles)],
                          (content, None))))))"

text \<open>
  The three components of the result, and the map \<open>addonFiles\<close> as it is when the loop
  of \<open>Template\<close> has ended (\<open>None\<close> when \<open>Template\<close> returns before that, because
  the listing or a read failed).
\<close>

definition calls_of :: "Addons \<Rightarrow> event list" where
  "calls_of a = fst (Template a)"

definition text_of :: "Addons \<Rightarrow> string" where
  "text_of a = fst (snd (Template a))"

definition error_of :: "Addons \<Rightarrow> error option" where
  "error_of a = snd (snd (Template a))"

definition aggregate :: "Addons \<Rightarrow> (string \<rightharpoonup> string) option" where
  "aggregate a =
     (case ReadAddonsDir (ws a) (svcName a) of
        Inl err \<Rightarrow> None
      | Inr fileNames \<Rightarrow>
          (case readAddonsFiles (ws a) (svcName a) (filterYAMLfiles fileNames) Map.empty of
             (cs, Inl err) \<Rightarrow> None
           | (cs, Inr addonFiles) \<Rightarrow> Some addonFiles))"

text \<open>The parameters, outputs and resources entries of the map, in this order.\<close>

definition slots :: "(string \<rightharpoonup> string) \<Rightarrow> string \<times> string \<times> string" where
  "slots f =
     (lookup f paramsFileWithoutExt, lookup f outputsFileWithoutExt, lookup f resourcesFiles)"

subsection \<open>Example collaborators\<close>

text \<open>
  A workspace given by the result of listing the addons directory and by the files in it
  (names with contents): reading a name that is not there fails. And a parser that
  renders the data into one text, section after section, each line followed by a
  semicolon.
\<close>

definition dirWorkspace :: "go_error + string list \<Rightarrow> (string \<times> string) list \<Rightarrow> workspaceReader" where
  "dirWorkspace listing files =
     \<lparr>ReadAddonsDir = (\<lambda>svc. listing),
      ReadAddonsFile = (\<lambda>svc fileName.
        case map_of files fileName of
          Some content \<Rightarrow> Inr content
        | None \<Rightarrow> Inl (GoError (''open '' @ fileName @ '': no such file or directory'')))\<rparr>"

definition linesParser :: Parser where
  "linesParser =
     \<lparr>Parse = (\<lambda>path data. Inr
        (path @ '' '' @ SvcName data
         @ '' P:'' @ concat (map (\<lambda>l. l @ '';'') (Parameters data))
         @ '' R:'' @ concat (map (\<lambda>l. l @ '';'') (Resources data))
         @ '' O:'' @ concat (map (\<lambda>l. l @ '';'') (Outputs data))))\<rparr>"

definition failingParser :: Parser where
  "failingParser = \<lparr>Parse = (\<lambda>path data. Inl (GoError (''parse '' @ path)))\<rparr>"

section \<open>Properties\<close>

subsection \<open>Facts about the library functions\<close>

lemma Ext_scan_suffix: "\<exists>pre. rev r @ seen = pre @ Ext_scan r seen"
proof (induction r arbitrary: seen)
  case Nil
  show ?case by simp
next
  case (Cons c r)
  show ?case
  proof (cases "c = CHR ''/''")
    case True
    then show ?thesis by simp
  next
    case False
    show ?thesis
    proof (cases "c = CHR ''.''")
      case True
      with False show ?thesis by simp
    next
      case dot: False
      from Cons.IH [of "c # seen"]
      obtain pre where "rev r @ c # seen = pre @ Ext_scan r (c # seen)"
        by blast
      with False dot show ?thesis by simp
    qed
  qed
qed

lemma Ext_suffix: "\<exists>pre. path = pre @ Ext path"
  using Ext_scan_suffix [of "rev path" "[]"] by (simp add: Ext_def)

lemma TrimSuffix_append: "TrimSuffix (pre @ e) e = pre"
  by (simp add: TrimSuffix_def HasSuffix_def)

lemma TrimSuffix_Ext: "TrimSuffix path (Ext path) @ Ext path = path"
proof -
  obtain pre where p: "path = pre @ Ext path" using Ext_suffix by blast
  have "TrimSuffix (pre @ Ext path) (Ext path) = pre" by (rule TrimSuffix_append)
  with p show ?thesis by simp
qed

lemma contains_set: "contains arr el \<longleftrightarrow> el \<in> set arr"
  by (induction arr) auto

lemma filterYAMLfiles_filter:
  "filterYAMLfiles files = filter (\<lambda>f. Ext f = ''.yaml'' \<or> Ext f = ''.yml'') files"
  by (induction files) (auto simp: contains_set yamlExtensions_def)

lemma filterYAMLfiles_idem: "filterYAMLfiles (filterYAMLfiles files) = filterYAMLfiles files"
  by (simp add: filterYAMLfiles_filter)

subsection \<open>Facts about the map and the loop\<close>

lemma lookup_empty: "lookup Map.empty k = []"
  by (simp add: lookup_def)

lemma addFile_resources:
  "lookup (addFile m f c) resourcesFiles =
     (if TrimSuffix f (Ext f) = paramsFileWithoutExt \<or> TrimSuffix f (Ext f) = outputsFileWithoutExt
      then lookup m resourcesFiles
      else lookup m resourcesFiles @ c @ ''\<newline>'')"
  by (simp add: addFile_def Let_def lookup_def paramsFileWithoutExt_def
      outputsFileWithoutExt_def resourcesFiles_def)

lemma addFile_params:
  "lookup (addFile m f c) paramsFileWithoutExt =
     (if TrimSuffix f (Ext f) = paramsFileWithoutExt then c else lookup m paramsFileWithoutExt)"
  by (simp add: addFile_def Let_def lookup_def paramsFileWithoutExt_def
      outputsFileWithoutExt_def resourcesFiles_def)

lemma addFile_outputs:
  "lookup (addFile m f c) outputsFileWithoutExt =
     (if TrimSuffix f (Ext f) = outputsFileWithoutExt then c else lookup m outputsFileWithoutExt)"
  by (simp add: addFile_def Let_def lookup_def paramsFileWithoutExt_def
      outputsFileWithoutExt_def resourcesFiles_def)

lemma readAddonsFiles_ok:
  "\<forall>f \<in> set names. ReadAddonsFile w svc f = Inr (content f) \<Longrightarrow>
   readAddonsFiles w svc names m =
     (map (ReadAddonsFileCall svc) names,
      Inr (fold (\<lambda>f m. addFile m f (TrimSpace (content f))) names m))"
  by (induction names arbitrary: m) auto

lemma readAddonsFiles_fail:
  "\<forall>g \<in> set pre. \<exists>c. ReadAddonsFile w svc g = Inr c \<Longrightarrow>
   ReadAddonsFile w svc f = Inl e \<Longrightarrow>
   readAddonsFiles w svc (pre @ f # post) m =
     (map (ReadAddonsFileCall svc) (pre @ [f]),
      Inl (wrapError
             (''read addons file '' @ f @ '' under service '' @ svc @ '': '' @ Error e) e))"
proof (induction pre arbitrary: m)
  case Nil
  then show ?case by simp
next
  case (Cons g pre)
  from Cons.prems(1) obtain c where c: "ReadAddonsFile w svc g = Inr c" by auto
  from Cons.prems have "\<forall>g \<in> set pre. \<exists>c. ReadAddonsFile w svc g = Inr c" by simp
  from Cons.IH [OF this Cons.prems(2)] c show ?case by simp
qed

lemma readAddonsFiles_cong:
  "\<forall>f \<in> set names. ReadAddonsFile w svc f = ReadAddonsFile w' svc f \<Longrightarrow>
   readAddonsFiles w svc names m = readAddonsFiles w' svc names m"
  by (induction names arbitrary: m) (simp_all split: sum.split)

lemma fold_resources:
  "lookup (fold (\<lambda>f m. addFile m f (TrimSpace (content f))) names m) resourcesFiles =
     lookup m resourcesFiles @
     concat (map (\<lambda>f. TrimSpace (content f) @ ''\<newline>'')
       (filter (\<lambda>f. TrimSuffix f (Ext f) \<noteq> paramsFileWithoutExt \<and>
                     TrimSuffix f (Ext f) \<noteq> outputsFileWithoutExt) names))"
  by (induction names arbitrary: m) (simp_all add: addFile_resources)

lemma fold_params:
  "lookup (fold (\<lambda>f m. addFile m f (TrimSpace (content f))) names m) paramsFileWithoutExt =
     (case rev (filter (\<lambda>f. TrimSuffix f (Ext f) = paramsFileWithoutExt) names) of
        [] \<Rightarrow> lookup m paramsFileWithoutExt
      | f # _ \<Rightarrow> TrimSpace (content f))"
  by (induction names rule: rev_induct) (simp_all add: addFile_params)

lemma fold_outputs:
  "lookup (fold (\<lambda>f m. addFile m f (TrimSpace (content f))) names m) outputsFileWithoutExt =
     (case rev (filter (\<lambda>f. TrimSuffix f (Ext f) = outputsFileWithoutExt) names) of
        [] \<Rightarrow> lookup m outputsFileWithoutExt
      | f # _ \<Rightarrow> TrimSpace (content f))"
  by (induction names rule: rev_induct) (simp_all add: addFile_outputs)

lemma readAddonsFiles_calls:
  "readAddonsFiles w svc names m0 = (cs, Inr m) \<Longrightarrow> cs = map (ReadAddonsFileCall svc) names"
proof (induction names arbitrary: m0 cs)
  case Nil
  then show ?case by simp
next
  case (Cons f names)
  then show ?case
    by (auto split: sum.splits prod.splits)
qed

lemma aggregate_Some:
  assumes "ReadAddonsDir (ws a) (svcName a) = Inr fileNames" and "aggregate a = Some m"
  shows "readAddonsFiles (ws a) (svcName a) (filterYAMLfiles fileNames) Map.empty =
           (map (ReadAddonsFileCall (svcName a)) (filterYAMLfiles fileNames), Inr m)"
proof -
  obtain cs r where loop:
    "readAddonsFiles (ws a) (svcName a) (filterYAMLfiles fileNames) Map.empty = (cs, r)"
    by (cases "readAddonsFiles (ws a) (svcName a) (filterYAMLfiles fileNames) Map.empty")
  with assms have "r = Inr m"
    by (cases r) (simp_all add: aggregate_def)
  with loop readAddonsFiles_calls [of "ws a" "svcName a" "filterYAMLfiles fileNames" Map.empty cs m]
  show ?thesis by simp
qed

lemma aggregate_ok:
  assumes "ReadAddonsDir (ws a) (svcName a) = Inr fileNames"
    and "\<forall>f \<in> set (filterYAMLfiles fileNames). ReadAddonsFile (ws a) (svcName a) f = Inr (content f)"
  shows "aggregate a =
           Some (fold (\<lambda>f m. addFile m f (TrimSpace (content f))) (filterYAMLfiles fileNames) Map.empty)"
  using assms(1) readAddonsFiles_ok [OF assms(2), of Map.empty]
  by (simp add: aggregate_def)

lemma base_params_iff:
  assumes "contains yamlExtensions (Ext f)"
  shows "TrimSuffix f (Ext f) = ''params'' \<longleftrightarrow> f = ''params.yaml'' \<or> f = ''params.yml''"
proof
  assume b: "TrimSuffix f (Ext f) = ''params''"
  from assms have "Ext f = ''.yaml'' \<or> Ext f = ''.yml''"
    by (auto simp: contains_set yamlExtensions_def)
  with TrimSuffix_Ext [of f] b show "f = ''params.yaml'' \<or> f = ''params.yml''"
    by auto
next
  assume "f = ''params.yaml'' \<or> f = ''params.yml''"
  then show "TrimSuffix f (Ext f) = ''params''"
    by (auto simp: Ext_def TrimSuffix_def HasSuffix_def)
qed

lemma base_outputs_iff:
  assumes "contains yamlExtensions (Ext f)"
  shows "TrimSuffix f (Ext f) = ''outputs'' \<longleftrightarrow> f = ''outputs.yaml'' \<or> f = ''outputs.yml''"
proof
  assume b: "TrimSuffix f (Ext f) = ''outputs''"
  from assms have "Ext f = ''.yaml'' \<or> Ext f = ''.yml''"
    by (auto simp: contains_set yamlExtensions_def)
  with TrimSuffix_Ext [of f] b show "f = ''outputs.yaml'' \<or> f = ''outputs.yml''"
    by auto
next
  assume "f = ''outputs.yaml'' \<or> f = ''outputs.yml''"
  then show "TrimSuffix f (Ext f) = ''outputs''"
    by (auto simp: Ext_def TrimSuffix_def HasSuffix_def)
qed

lemma missingFiles_eq:
  "missingFiles m =
     (if lookup m paramsFileWithoutExt = [] then [''params.yaml''] else [])
     @ (if lookup m outputsFileWithoutExt = [] then [''outputs.yaml''] else [])
     @ (if lookup m resourcesFiles = [] then [resourceRequirement] else [])"
  by (simp add: missingFiles_def Let_def paramsFileWithoutExt_def outputsFileWithoutExt_def)

lemma resourceRequirement_in_missingFiles:
  "resourceRequirement \<in> set (missingFiles m) \<longleftrightarrow> lookup m resourcesFiles = []"
  by (simp add: missingFiles_eq resourceRequirement_def)

lemma concat_newlines_empty:
  "concat (map (\<lambda>f. g f @ ''\<newline>'') xs) = [] \<longleftrightarrow> xs = []"
  by (cases xs) simp_all

lemma concat_newlines_blank:
  "\<forall>f \<in> set xs. g f = [] \<Longrightarrow>
   concat (map (\<lambda>f. g f @ ''\<newline>'') xs) = replicate (length xs) (CHR 0x0A)"
  by (induction xs) simp_all

lemma Template_after_loop:
  assumes "ReadAddonsDir (ws a) (svcName a) = Inr fileNames" and "aggregate a = Some m"
  shows "Template a =
    (case validateNoMissingFiles m of
       Some err \<Rightarrow>
         (ReadAddonsDirCall (svcName a)
            # map (ReadAddonsFileCall (svcName a)) (filterYAMLfiles fileNames),
          ([], Some err))
     | None \<Rightarrow>
         (case Parse (parser a) addonsTemplatePath (templateDataOf (svcName a) m) of
            Inl err \<Rightarrow>
              (ReadAddonsDirCall (svcName a)
                 # map (ReadAddonsFileCall (svcName a)) (filterYAMLfiles fileNames)
                 @ [ParseCall addonsTemplatePath (templateDataOf (svcName a) m)],
               ([], Some (Returned err)))
          | Inr content \<Rightarrow>
              (ReadAddonsDirCall (svcName a)
                 # map (ReadAddonsFileCall (svcName a)) (filterYAMLfiles fileNames)
                 @ [ParseCall addonsTemplatePath (templateDataOf (svcName a) m)],
               (content, None))))"
  using assms(1) aggregate_Some [OF assms] by (simp add: Template_def)

lemma validateNoMissingFiles_None:
  "validateNoMissingFiles m = None \<longleftrightarrow>
     lookup m paramsFileWithoutExt \<noteq> [] \<and> lookup m outputsFileWithoutExt \<noteq> []
     \<and> lookup m resourcesFiles \<noteq> []"
  by (simp add: validateNoMissingFiles_def missingFiles_eq)

subsection \<open>The file classifier\<close>

text \<open>
  C3. Of an ordered sequence of file names, \<open>filterYAMLfiles\<close> keeps exactly those whose
  extension is \<open>.yaml\<close> or \<open>.yml\<close>, byte for byte, in their original order: an
  upper-case extension, another extension or no extension is dropped. A dropped file
  contributes nothing and is no error: \<open>Template\<close> makes the same calls and returns the
  same result as if the directory listing had not held the dropped names at all.
\<close>

theorem filterYAMLfiles_keeps_yaml_in_order:
  "filterYAMLfiles files = filter (\<lambda>f. Ext f = ''.yaml'' \<or> Ext f = ''.yml'') files
   \<and> filterYAMLfiles [''a.YAML'', ''notes.txt'', ''b.yml'', ''README'', ''c.yaml'', ''d.yaml.bak'']
       = [''b.yml'', ''c.yaml'']
   \<and> Template (a\<lparr>ws := (ws a)\<lparr>ReadAddonsDir :=
         \<lambda>svc. map_sum id filterYAMLfiles (ReadAddonsDir (ws a) svc)\<rparr>\<rparr>) = Template a"
proof (intro conjI)
  show "filterYAMLfiles files = filter (\<lambda>f. Ext f = ''.yaml'' \<or> Ext f = ''.yml'') files"
    by (rule filterYAMLfiles_filter)
  show "filterYAMLfiles [''a.YAML'', ''notes.txt'', ''b.yml'', ''README'', ''c.yaml'', ''d.yaml.bak'']
          = [''b.yml'', ''c.yaml'']"
    by (simp add: Ext_def yamlExtensions_def)
  define b where "b = a\<lparr>ws := (ws a)\<lparr>ReadAddonsDir :=
      \<lambda>svc. map_sum id filterYAMLfiles (ReadAddonsDir (ws a) svc)\<rparr>\<rparr>"
  have svc: "svcName b = svcName a" and prs: "parser b = parser a"
    and rd: "ReadAddonsFile (ws b) = ReadAddonsFile (ws a)"
    and dir: "ReadAddonsDir (ws b) (svcName a)
                = map_sum id filterYAMLfiles (ReadAddonsDir (ws a) (svcName a))"
    by (simp_all add: b_def)
  have loop: "readAddonsFiles (ws b) (svcName a) names m
                = readAddonsFiles (ws a) (svcName a) names m" for names m
    by (rule readAddonsFiles_cong) (simp add: rd)
  have "Template b = Template a"
    unfolding Template_def svc prs dir loop
    by (cases "ReadAddonsDir (ws a) (svcName a)") (simp_all add: filterYAMLfiles_idem)
  then show "Template (a\<lparr>ws := (ws a)\<lparr>ReadAddonsDir :=
          \<lambda>svc. map_sum id filterYAMLfiles (ReadAddonsDir (ws a) svc)\<rparr>\<rparr>) = Template a"
    by (simp add: b_def)
qed

text \<open>
  C4. For a retained file name (extension \<open>.yaml\<close> or \<open>.yml\<close>) the loop strips that
  final extension and compares what is left, byte for byte: only \<open>params.yaml\<close> and
  \<open>params.yml\<close> set the parameters entry, only \<open>outputs.yaml\<close> and \<open>outputs.yml\<close>
  set the outputs entry, and every other name appends to the resources entry. So
  \<open>Params.yaml\<close> and \<open>params.txt.yaml\<close> go to the resources.
\<close>

theorem addFile_routes_by_base_name:
  assumes "contains yamlExtensions (Ext f)"
  shows "TrimSuffix f (Ext f) @ Ext f = f
         \<and> addFile m f c =
           (if f = ''params.yaml'' \<or> f = ''params.yml'' then m(''params'' \<mapsto> c)
            else if f = ''outputs.yaml'' \<or> f = ''outputs.yml'' then m(''outputs'' \<mapsto> c)
            else m(''resources'' \<mapsto> lookup m ''resources'' @ c @ ''\<newline>''))"
  using base_params_iff [OF assms] base_outputs_iff [OF assms]
  by (simp add: TrimSuffix_Ext addFile_def Let_def paramsFileWithoutExt_def
      outputsFileWithoutExt_def resourcesFiles_def)

theorem addFile_routes_by_base_name_witness:
  "contains yamlExtensions (Ext ''Params.yaml'')
   \<and> contains yamlExtensions (Ext ''params.txt.yaml'')
   \<and> contains yamlExtensions (Ext ''params.yml'')
   \<and> addFile Map.empty ''Params.yaml'' ''c'' = [''resources'' \<mapsto> ''c\<newline>'']
   \<and> addFile [''resources'' \<mapsto> ''x\<newline>''] ''params.txt.yaml'' ''c''
       = [''resources'' \<mapsto> ''x\<newline>c\<newline>'']
   \<and> addFile Map.empty ''params.yml'' ''c'' = [''params'' \<mapsto> ''c'']"
proof -
  have h1: "contains yamlExtensions (Ext ''Params.yaml'')"
    and h2: "contains yamlExtensions (Ext ''params.txt.yaml'')"
    and h3: "contains yamlExtensions (Ext ''params.yml'')"
    by (simp_all add: yamlExtensions_def Ext_def)
  from addFile_routes_by_base_name [OF h1, of Map.empty "''c''"]
  have r1: "addFile Map.empty ''Params.yaml'' ''c'' = [''resources'' \<mapsto> ''c\<newline>'']"
    by (simp add: lookup_def)
  from addFile_routes_by_base_name [OF h2, of "[''resources'' \<mapsto> ''x\<newline>'']" "''c''"]
  have r2: "addFile [''resources'' \<mapsto> ''x\<newline>''] ''params.txt.yaml'' ''c''
       = [''resources'' \<mapsto> ''x\<newline>c\<newline>'']"
    by (simp add: lookup_def)
  from addFile_routes_by_base_name [OF h3, of Map.empty "''c''"]
  have r3: "addFile Map.empty ''params.yml'' ''c'' = [''params'' \<mapsto> ''c'']"
    by simp
  from h1 h2 h3 r1 r2 r3 show ?thesis by blast
qed

subsection \<open>The content aggregator\<close>

text \<open>
  C2. When the listing and every read succeed, the map built by the loop holds: under
  \<open>resources\<close>, for each retained file that is neither the parameters nor the outputs
  file, in listing order, its content trimmed and followed by a newline, all
  concatenated (two files \<open>a.yaml\<close> with \<open>A\<close> and \<open>b.yaml\<close> with \<open>B\<close> give
  \<open>A\nB\n\<close>); under \<open>params\<close> and under \<open>outputs\<close>, the trimmed content of the last
  file of that category in the listing, and nothing when there is none.
\<close>

theorem aggregation_semantics:
  assumes "ReadAddonsDir (ws a) (svcName a) = Inr fileNames"
    and "\<forall>f \<in> set (filterYAMLfiles fileNames).
           ReadAddonsFile (ws a) (svcName a) f = Inr (content f)"
  shows "\<exists>m. aggregate a = Some m
     \<and> lookup m resourcesFiles =
         concat (map (\<lambda>f. TrimSpace (content f) @ ''\<newline>'')
           (filter (\<lambda>f. TrimSuffix f (Ext f) \<noteq> paramsFileWithoutExt \<and>
                         TrimSuffix f (Ext f) \<noteq> outputsFileWithoutExt)
              (filterYAMLfiles fileNames)))
     \<and> lookup m paramsFileWithoutExt =
         (case rev (filter (\<lambda>f. TrimSuffix f (Ext f) = paramsFileWithoutExt)
                      (filterYAMLfiles fileNames)) of
            [] \<Rightarrow> []
          | f # _ \<Rightarrow> TrimSpace (content f))
     \<and> lookup m outputsFileWithoutExt =
         (case rev (filter (\<lambda>f. TrimSuffix f (Ext f) = outputsFileWithoutExt)
                      (filterYAMLfiles fileNames)) of
            [] \<Rightarrow> []
          | f # _ \<Rightarrow> TrimSpace (content f))"
  using aggregate_ok [OF assms]
  by (simp add: fold_resources fold_params fold_outputs lookup_empty cong: list.case_cong)

theorem aggregation_semantics_witness:
  "ReadAddonsDir (ws \<lparr>svcName = ''web'', parser = linesParser,
       ws = dirWorkspace (Inr [''params.yml'', ''a.yaml'', ''outputs.yaml'', ''b.yaml'', ''params.yaml''])
              [(''params.yml'', ''old''), (''a.yaml'', ''A''), (''outputs.yaml'', ''O''),
               (''b.yaml'', ''B''), (''params.yaml'', [CHR 0x20, CHR 0x09] @ ''P\<newline>'')]\<rparr>) ''web''
     = Inr [''params.yml'', ''a.yaml'', ''outputs.yaml'', ''b.yaml'', ''params.yaml'']
   \<and> map_option slots (aggregate \<lparr>svcName = ''web'', parser = linesParser,
       ws = dirWorkspace (Inr [''params.yml'', ''a.yaml'', ''outputs.yaml'', ''b.yaml'', ''params.yaml''])
              [(''params.yml'', ''old''), (''a.yaml'', ''A''), (''outputs.yaml'', ''O''),
               (''b.yaml'', ''B''), (''params.yaml'', [CHR 0x20, CHR 0x09] @ ''P\<newline>'')]\<rparr>)
     = Some (''P'', ''O'', ''A\<newline>B\<newline>'')"
proof -
  define files where "files =
    [(''params.yml'', ''old''), (''a.yaml'', ''A''), (''outputs.yaml'', ''O''),
     (''b.yaml'', ''B''), (''params.yaml'', [CHR 0x20, CHR 0x09] @ ''P\<newline>'')]"
  define names where "names = [''params.yml'', ''a.yaml'', ''outputs.yaml'', ''b.yaml'', ''params.yaml'']"
  define A where "A = \<lparr>svcName = ''web'', parser = linesParser, ws = dirWorkspace (Inr names) files\<rparr>"
  define content where "content = (\<lambda>f. case map_of files f of Some c \<Rightarrow> c | None \<Rightarrow> [])"
  have dir: "ReadAddonsDir (ws A) (svcName A) = Inr names"
    by (simp add: A_def dirWorkspace_def)
  have keep: "filterYAMLfiles names = names"
    unfolding names_def by (simp add: Ext_def yamlExtensions_def)
  have reads: "\<forall>f \<in> set (filterYAMLfiles names). ReadAddonsFile (ws A) (svcName A) f = Inr (content f)"
    unfolding keep by (simp add: names_def A_def dirWorkspace_def content_def files_def)
  from aggregation_semantics [OF dir reads] obtain m where
    m: "aggregate A = Some m"
    and r: "lookup m resourcesFiles =
         concat (map (\<lambda>f. TrimSpace (content f) @ ''\<newline>'')
           (filter (\<lambda>f. TrimSuffix f (Ext f) \<noteq> paramsFileWithoutExt \<and>
                         TrimSuffix f (Ext f) \<noteq> outputsFileWithoutExt)
              (filterYAMLfiles names)))"
    and p: "lookup m paramsFileWithoutExt =
         (case rev (filter (\<lambda>f. TrimSuffix f (Ext f) = paramsFileWithoutExt)
                      (filterYAMLfiles names)) of
            [] \<Rightarrow> []
          | f # _ \<Rightarrow> TrimSpace (content f))"
    and o: "lookup m outputsFileWithoutExt =
         (case rev (filter (\<lambda>f. TrimSuffix f (Ext f) = outputsFileWithoutExt)
                      (filterYAMLfiles names)) of
            [] \<Rightarrow> []
          | f # _ \<Rightarrow> TrimSpace (content f))"
    by blast
  have r': "concat (map (\<lambda>f. TrimSpace (content f) @ ''\<newline>'')
           (filter (\<lambda>f. TrimSuffix f (Ext f) \<noteq> paramsFileWithoutExt \<and>
                         TrimSuffix f (Ext f) \<noteq> outputsFileWithoutExt)
              (filterYAMLfiles names))) = ''A\<newline>B\<newline>''"
    unfolding names_def content_def files_def by code_simp
  have p': "(case rev (filter (\<lambda>f. TrimSuffix f (Ext f) = paramsFileWithoutExt)
                      (filterYAMLfiles names)) of
            [] \<Rightarrow> []
          | f # _ \<Rightarrow> TrimSpace (content f)) = ''P''"
    unfolding names_def content_def files_def by code_simp
  have o': "(case rev (filter (\<lambda>f. TrimSuffix f (Ext f) = outputsFileWithoutExt)
                      (filterYAMLfiles names)) of
            [] \<Rightarrow> []
          | f # _ \<Rightarrow> TrimSpace (content f)) = ''O''"
    unfolding names_def content_def files_def by code_simp
  from m r p o have "map_option slots (aggregate A) = Some (''P'', ''O'', ''A\<newline>B\<newline>'')"
    by (simp add: slots_def r' p' o')
  with dir show ?thesis
    unfolding A_def names_def files_def by simp
qed

subsection \<open>The completeness validator\<close>

text \<open>
  C10. When the listing and every read succeed, the check for resources in
  \<open>validateNoMissingFiles\<close> reports the requirement of a resource file exactly when no
  retained file went to the resources. A resource file whose content trims to nothing
  still adds its newline: when all resource files are such, the resources entry is one
  newline per file, so it is not empty and the check passes, the entry being compared
  with the empty string as it is, without trimming it.
\<close>

theorem resources_missing_iff_no_resource_file:
  assumes "ReadAddonsDir (ws a) (svcName a) = Inr fileNames"
    and "\<forall>f \<in> set (filterYAMLfiles fileNames).
           ReadAddonsFile (ws a) (svcName a) f = Inr (content f)"
  shows "\<exists>m. aggregate a = Some m
     \<and> (resourceRequirement \<in> set (missingFiles m) \<longleftrightarrow>
          filter (\<lambda>f. TrimSuffix f (Ext f) \<noteq> paramsFileWithoutExt \<and>
                        TrimSuffix f (Ext f) \<noteq> outputsFileWithoutExt)
            (filterYAMLfiles fileNames) = [])
     \<and> ((\<forall>f \<in> set (filter (\<lambda>f. TrimSuffix f (Ext f) \<noteq> paramsFileWithoutExt \<and>
                                     TrimSuffix f (Ext f) \<noteq> outputsFileWithoutExt)
                            (filterYAMLfiles fileNames)). TrimSpace (content f) = []) \<longrightarrow>
          lookup m resourcesFiles =
            replicate (length (filter (\<lambda>f. TrimSuffix f (Ext f) \<noteq> paramsFileWithoutExt \<and>
                                          TrimSuffix f (Ext f) \<noteq> outputsFileWithoutExt)
                                 (filterYAMLfiles fileNames))) (CHR 0x0A))"
proof -
  let ?res = "filter (\<lambda>f. TrimSuffix f (Ext f) \<noteq> paramsFileWithoutExt \<and>
                        TrimSuffix f (Ext f) \<noteq> outputsFileWithoutExt) (filterYAMLfiles fileNames)"
  let ?m = "fold (\<lambda>f m. addFile m f (TrimSpace (content f))) (filterYAMLfiles fileNames) Map.empty"
  have agg: "aggregate a = Some ?m" by (rule aggregate_ok [OF assms])
  have slot: "lookup ?m resourcesFiles = concat (map (\<lambda>f. TrimSpace (content f) @ ''\<newline>'') ?res)"
    by (simp add: fold_resources lookup_empty)
  have fires: "resourceRequirement \<in> set (missingFiles ?m) \<longleftrightarrow> ?res = []"
    by (simp only: resourceRequirement_in_missingFiles slot concat_newlines_empty)
  have blank: "lookup ?m resourcesFiles = replicate (length ?res) (CHR 0x0A)"
    if "\<forall>f \<in> set ?res. TrimSpace (content f) = []"
  proof -
    from that have "concat (map (\<lambda>f. TrimSpace (content f) @ ''\<newline>'') ?res)
                 = replicate (length ?res) (CHR 0x0A)"
      by (rule concat_newlines_blank)
    with slot show ?thesis by simp
  qed
  from agg fires blank show ?thesis by blast
qed


theorem resources_missing_iff_no_resource_file_witness:
  "ReadAddonsDir (ws \<lparr>svcName = ''web'', parser = linesParser,
       ws = dirWorkspace (Inr [''params.yaml'', ''outputs.yaml'', ''blank.yaml''])
              [(''params.yaml'', ''P: 1''), (''outputs.yaml'', ''O: 2''),
               (''blank.yaml'', [CHR 0x20, CHR 0x09, CHR 0x0A, CHR 0x20])]\<rparr>) ''web''
     = Inr [''params.yaml'', ''outputs.yaml'', ''blank.yaml'']
   \<and> TrimSpace [CHR 0x20, CHR 0x09, CHR 0x0A, CHR 0x20] = []
   \<and> (\<exists>m. aggregate \<lparr>svcName = ''web'', parser = linesParser,
       ws = dirWorkspace (Inr [''params.yaml'', ''outputs.yaml'', ''blank.yaml''])
              [(''params.yaml'', ''P: 1''), (''outputs.yaml'', ''O: 2''),
               (''blank.yaml'', [CHR 0x20, CHR 0x09, CHR 0x0A, CHR 0x20])]\<rparr> = Some m
        \<and> resourceRequirement \<notin> set (missingFiles m)
        \<and> lookup m resourcesFiles = ''\<newline>'')"
proof -
  define files where "files =
    [(''params.yaml'', ''P: 1''), (''outputs.yaml'', ''O: 2''),
     (''blank.yaml'', [CHR 0x20, CHR 0x09, CHR 0x0A, CHR 0x20])]"
  define names where "names = [''params.yaml'', ''outputs.yaml'', ''blank.yaml'']"
  define A where "A = \<lparr>svcName = ''web'', parser = linesParser, ws = dirWorkspace (Inr names) files\<rparr>"
  define content where "content = (\<lambda>f. case map_of files f of Some c \<Rightarrow> c | None \<Rightarrow> [])"
  let ?res = "filter (\<lambda>f. TrimSuffix f (Ext f) \<noteq> paramsFileWithoutExt \<and>
                        TrimSuffix f (Ext f) \<noteq> outputsFileWithoutExt) (filterYAMLfiles names)"
  have dir: "ReadAddonsDir (ws A) (svcName A) = Inr names"
    by (simp add: A_def dirWorkspace_def)
  have keep: "filterYAMLfiles names = names"
    unfolding names_def by (simp add: Ext_def yamlExtensions_def)
  have reads: "\<forall>f \<in> set (filterYAMLfiles names). ReadAddonsFile (ws A) (svcName A) f = Inr (content f)"
    unfolding keep by (simp add: names_def A_def dirWorkspace_def content_def files_def)
  have res: "?res = [''blank.yaml'']"
    unfolding names_def by code_simp
  have trim: "TrimSpace [CHR 0x20, CHR 0x09, CHR 0x0A, CHR 0x20] = []"
    by code_simp
  have blank: "\<forall>f \<in> set ?res. TrimSpace (content f) = []"
    unfolding res by (simp add: content_def files_def trim)
  from resources_missing_iff_no_resource_file [OF dir reads] obtain m where
    m: "aggregate A = Some m"
    and fires: "resourceRequirement \<in> set (missingFiles m) \<longleftrightarrow> ?res = []"
    and slot: "(\<forall>f \<in> set ?res. TrimSpace (content f) = []) \<longrightarrow>
                 lookup m resourcesFiles = replicate (length ?res) (CHR 0x0A)"
    by blast
  from fires res have "resourceRequirement \<notin> set (missingFiles m)" by simp
  moreover from slot blank res have "lookup m resourcesFiles = ''\<newline>''" by simp
  ultimately have "\<exists>m. aggregate A = Some m \<and> resourceRequirement \<notin> set (missingFiles m)
      \<and> lookup m resourcesFiles = ''\<newline>''"
    using m by blast
  with dir trim show ?thesis
    unfolding A_def names_def files_def by simp
qed

text \<open>
  C1, as the code has it. Once the loop has ended, \<open>Template\<close> requires the parameters
  and the outputs entries (each the trimmed content of a file) and the resources entry,
  taken as accumulated and not trimmed again, to be non-empty. If one of them is empty it
  calls no parser and returns the empty text with an error whose message lists, in this
  order, \<open>params.yaml\<close> when the parameters are empty, \<open>outputs.yaml\<close> when the outputs
  are empty, and the requirement of at least one resource YAML file when the resources
  are empty. If none is empty, validation passes and the parser is called.
\<close>

theorem Template_missing_files:
  assumes "ReadAddonsDir (ws a) (svcName a) = Inr fileNames" and "aggregate a = Some m"
  shows "(lookup m paramsFileWithoutExt = [] \<or> lookup m outputsFileWithoutExt = []
            \<or> lookup m resourcesFiles = [] \<longrightarrow>
          Template a =
            (ReadAddonsDirCall (svcName a)
               # map (ReadAddonsFileCall (svcName a)) (filterYAMLfiles fileNames),
             ([], Some (errorString (''addons directory has missing file(s): '' @
                Join ((if lookup m paramsFileWithoutExt = [] then [''params.yaml''] else [])
                      @ (if lookup m outputsFileWithoutExt = [] then [''outputs.yaml''] else [])
                      @ (if lookup m resourcesFiles = []
                         then [''at least one resource YAML file such as \"s3-bucket.yaml\"'']
                         else [])) '', '')))))
       \<and> (lookup m paramsFileWithoutExt \<noteq> [] \<and> lookup m outputsFileWithoutExt \<noteq> []
            \<and> lookup m resourcesFiles \<noteq> [] \<longrightarrow>
          validateNoMissingFiles m = None
          \<and> ParseCall addonsTemplatePath (templateDataOf (svcName a) m) \<in> set (calls_of a))"
proof (intro conjI impI)
  assume "lookup m paramsFileWithoutExt = [] \<or> lookup m outputsFileWithoutExt = []
            \<or> lookup m resourcesFiles = []"
  then have "missingFiles m \<noteq> []" by (auto simp: missingFiles_eq)
  then show "Template a =
            (ReadAddonsDirCall (svcName a)
               # map (ReadAddonsFileCall (svcName a)) (filterYAMLfiles fileNames),
             ([], Some (errorString (''addons directory has missing file(s): '' @
                Join ((if lookup m paramsFileWithoutExt = [] then [''params.yaml''] else [])
                      @ (if lookup m outputsFileWithoutExt = [] then [''outputs.yaml''] else [])
                      @ (if lookup m resourcesFiles = []
                         then [''at least one resource YAML file such as \"s3-bucket.yaml\"'']
                         else [])) '', ''))))"
    unfolding Template_after_loop [OF assms]
    by (simp add: validateNoMissingFiles_def) (simp add: missingFiles_eq resourceRequirement_def)
next
  assume ok: "lookup m paramsFileWithoutExt \<noteq> [] \<and> lookup m outputsFileWithoutExt \<noteq> []
            \<and> lookup m resourcesFiles \<noteq> []"
  then show v: "validateNoMissingFiles m = None"
    by (simp add: validateNoMissingFiles_None)
  show "ParseCall addonsTemplatePath (templateDataOf (svcName a) m) \<in> set (calls_of a)"
    unfolding calls_of_def Template_after_loop [OF assms] v
    by (simp split: sum.split)
qed

theorem Template_missing_files_witness:
  "ReadAddonsDir (ws \<lparr>svcName = ''web'', parser = linesParser, ws = dirWorkspace (Inr []) []\<rparr>) ''web''
     = Inr []
   \<and> aggregate \<lparr>svcName = ''web'', parser = linesParser, ws = dirWorkspace (Inr []) []\<rparr>
     = Some Map.empty
   \<and> Template \<lparr>svcName = ''web'', parser = linesParser, ws = dirWorkspace (Inr []) []\<rparr>
     = ([ReadAddonsDirCall ''web''],
        ([], Some (errorString
           ''addons directory has missing file(s): params.yaml, outputs.yaml, at least one resource YAML file such as \"s3-bucket.yaml\"'')))
   \<and> ReadAddonsDir (ws \<lparr>svcName = ''web'', parser = linesParser,
         ws = dirWorkspace (Inr [''s3-bucket.yaml'']) [(''s3-bucket.yaml'', ''Bucket: b'')]\<rparr>) ''web''
     = Inr [''s3-bucket.yaml'']
   \<and> aggregate \<lparr>svcName = ''web'', parser = linesParser,
         ws = dirWorkspace (Inr [''s3-bucket.yaml'']) [(''s3-bucket.yaml'', ''Bucket: b'')]\<rparr>
     = Some [''resources'' \<mapsto> ''Bucket: b\<newline>'']
   \<and> Template \<lparr>svcName = ''web'', parser = linesParser,
         ws = dirWorkspace (Inr [''s3-bucket.yaml'']) [(''s3-bucket.yaml'', ''Bucket: b'')]\<rparr>
     = ([ReadAddonsDirCall ''web'', ReadAddonsFileCall ''web'' ''s3-bucket.yaml''],
        ([], Some (errorString
           ''addons directory has missing file(s): params.yaml, outputs.yaml'')))"
proof -
  define A where "A = \<lparr>svcName = ''web'', parser = linesParser, ws = dirWorkspace (Inr []) []\<rparr>"
  define B where "B = \<lparr>svcName = ''web'', parser = linesParser,
         ws = dirWorkspace (Inr [''s3-bucket.yaml'']) [(''s3-bucket.yaml'', ''Bucket: b'')]\<rparr>"
  have dirA: "ReadAddonsDir (ws A) (svcName A) = Inr []"
    by (simp add: A_def dirWorkspace_def)
  have aggA: "aggregate A = Some Map.empty"
    by (simp add: A_def dirWorkspace_def aggregate_def)
  have dirB: "ReadAddonsDir (ws B) (svcName B) = Inr [''s3-bucket.yaml'']"
    by (simp add: B_def dirWorkspace_def)
  have trim: "TrimSpace ''Bucket: b'' = ''Bucket: b''"
    by code_simp
  have aggB: "aggregate B = Some [''resources'' \<mapsto> ''Bucket: b\<newline>'']"
    by (simp add: B_def dirWorkspace_def aggregate_def Ext_def yamlExtensions_def trim
        addFile_def TrimSuffix_def HasSuffix_def lookup_def paramsFileWithoutExt_def
        outputsFileWithoutExt_def resourcesFiles_def)
  have tA: "Template A = ([ReadAddonsDirCall ''web''],
        ([], Some (errorString
           ''addons directory has missing file(s): params.yaml, outputs.yaml, at least one resource YAML file such as \"s3-bucket.yaml\"'')))"
    using Template_missing_files [OF dirA aggA]
    by (simp add: lookup_def A_def)
  have tB: "Template B = ([ReadAddonsDirCall ''web'', ReadAddonsFileCall ''web'' ''s3-bucket.yaml''],
        ([], Some (errorString
           ''addons directory has missing file(s): params.yaml, outputs.yaml'')))"
    using Template_missing_files [OF dirB aggB]
    by (simp add: lookup_def B_def Ext_def yamlExtensions_def paramsFileWithoutExt_def
        outputsFileWithoutExt_def resourcesFiles_def)
  from dirA aggA tA dirB aggB tB show ?thesis
    unfolding A_def B_def by simp
qed

text \<open>
  C1 as the specification words it asks for a resources entry that is non-empty after
  trimming. This is not what the code checks: a directory with a parameters file, an
  outputs file and one resource file that holds only white space has the resources entry
  \<open>"\n"\<close>, which trims to the empty string, and \<open>Template\<close> returns no error but the
  text rendered from an empty resources line.
\<close>

theorem Template_blank_resource_counterexample:
  "map_option slots (aggregate \<lparr>svcName = ''web'', parser = linesParser,
       ws = dirWorkspace (Inr [''params.yaml'', ''outputs.yaml'', ''blank.yaml''])
              [(''params.yaml'', ''P: 1''), (''outputs.yaml'', ''O: 2''),
               (''blank.yaml'', [CHR 0x20, CHR 0x0A])]\<rparr>)
     = Some (''P: 1'', ''O: 2'', ''\<newline>'')
   \<and> TrimSpace ''\<newline>'' = []
   \<and> Template \<lparr>svcName = ''web'', parser = linesParser,
       ws = dirWorkspace (Inr [''params.yaml'', ''outputs.yaml'', ''blank.yaml''])
              [(''params.yaml'', ''P: 1''), (''outputs.yaml'', ''O: 2''),
               (''blank.yaml'', [CHR 0x20, CHR 0x0A])]\<rparr>
     = ([ReadAddonsDirCall ''web'', ReadAddonsFileCall ''web'' ''params.yaml'',
         ReadAddonsFileCall ''web'' ''outputs.yaml'', ReadAddonsFileCall ''web'' ''blank.yaml'',
         ParseCall ''addons/cf.yml''
           \<lparr>SvcName = ''web'', Parameters = [''P: 1''], Resources = [[]], Outputs = [''O: 2'']\<rparr>],
        (''addons/cf.yml web P:P: 1; R:; O:O: 2;'', None))"
  by code_simp

subsection \<open>Failure of the directory listing\<close>

text \<open>
  C6. When \<open>ReadAddonsDir\<close> fails for the service, \<open>Template\<close> makes no other call on
  its collaborators (no file is read, the parser is not invoked) and returns the empty
  text with an \<open>ErrDirNotExist\<close> that names the service and holds the failure of the
  listing as its parent. That error is never the one \<open>validateNoMissingFiles\<close> gives.
\<close>

theorem Template_dir_not_exist:
  assumes "ReadAddonsDir (ws a) (svcName a) = Inl e"
  shows "Template a =
           ([ReadAddonsDirCall (svcName a)], ([], Some (ErrDirNotExist (svcName a) e)))
         \<and> validateNoMissingFiles f \<noteq> Some (ErrDirNotExist (svcName a) e)"
  using assms by (simp add: Template_def validateNoMissingFiles_def)

theorem Template_dir_not_exist_witness:
  "ReadAddonsDir (ws \<lparr>svcName = ''web'', parser = linesParser,
        ws = dirWorkspace (Inl (GoError ''no addons directory'')) []\<rparr>) ''web''
     = Inl (GoError ''no addons directory'')
   \<and> Template \<lparr>svcName = ''web'', parser = linesParser,
        ws = dirWorkspace (Inl (GoError ''no addons directory'')) []\<rparr>
     = ([ReadAddonsDirCall ''web''],
        ([], Some (ErrDirNotExist ''web'' (GoError ''no addons directory''))))
   \<and> validateNoMissingFiles Map.empty
     \<noteq> Some (ErrDirNotExist ''web'' (GoError ''no addons directory''))"
  using Template_dir_not_exist
    [of "\<lparr>svcName = ''web'', parser = linesParser,
          ws = dirWorkspace (Inl (GoError ''no addons directory'')) []\<rparr>"
        "GoError ''no addons directory''" Map.empty]
  by (simp add: dirWorkspace_def)

subsection \<open>The renderer adapter\<close>

text \<open>
  C5. When the loop has ended and validation has passed, \<open>Template\<close> trims each of the
  three entries, splits it at the newlines, and calls the parser once, after all reads,
  with the path \<open>addons/cf.yml\<close> and the service name with the three sequences of
  lines. It returns the parser's text as it is with no error, or the empty text with the
  parser's error as it is. A resource file \<open>Bucket:\n  Type: AWS::S3::Bucket\<close> gives the
  resources lines \<open>Bucket:\<close> and \<open>  Type: AWS::S3::Bucket\<close>.
\<close>

theorem Template_renders:
  assumes "ReadAddonsDir (ws a) (svcName a) = Inr fileNames" and "aggregate a = Some m"
    and "validateNoMissingFiles m = None"
  shows "Template a =
    (ReadAddonsDirCall (svcName a)
       # map (ReadAddonsFileCall (svcName a)) (filterYAMLfiles fileNames)
       @ [ParseCall ''addons/cf.yml''
            \<lparr>SvcName = svcName a,
             Parameters = Split (TrimSpace (lookup m ''params'')) (CHR 0x0A),
             Resources = Split (TrimSpace (lookup m ''resources'')) (CHR 0x0A),
             Outputs = Split (TrimSpace (lookup m ''outputs'')) (CHR 0x0A)\<rparr>],
     (case Parse (parser a) ''addons/cf.yml''
            \<lparr>SvcName = svcName a,
             Parameters = Split (TrimSpace (lookup m ''params'')) (CHR 0x0A),
             Resources = Split (TrimSpace (lookup m ''resources'')) (CHR 0x0A),
             Outputs = Split (TrimSpace (lookup m ''outputs'')) (CHR 0x0A)\<rparr> of
        Inl err \<Rightarrow> ([], Some (Returned err))
      | Inr content \<Rightarrow> (content, None)))"
  unfolding Template_after_loop [OF assms(1,2)] assms(3)
  by (simp add: templateDataOf_def addonsTemplatePath_def paramsFileWithoutExt_def
      outputsFileWithoutExt_def resourcesFiles_def split: sum.split)

theorem Template_renders_witness:
  "ReadAddonsDir (ws \<lparr>svcName = ''web'', parser = linesParser,
       ws = dirWorkspace (Inr [''params.yaml'', ''outputs.yaml'', ''s3-bucket.yaml''])
              [(''params.yaml'', ''Param1:\<newline>  Type: String''),
               (''outputs.yaml'', ''Output1:\<newline>  Value: foo''),
               (''s3-bucket.yaml'', ''Bucket:\<newline>  Type: AWS::S3::Bucket'')]\<rparr>) ''web''
     = Inr [''params.yaml'', ''outputs.yaml'', ''s3-bucket.yaml'']
   \<and> Template \<lparr>svcName = ''web'', parser = linesParser,
       ws = dirWorkspace (Inr [''params.yaml'', ''outputs.yaml'', ''s3-bucket.yaml''])
              [(''params.yaml'', ''Param1:\<newline>  Type: String''),
               (''outputs.yaml'', ''Output1:\<newline>  Value: foo''),
               (''s3-bucket.yaml'', ''Bucket:\<newline>  Type: AWS::S3::Bucket'')]\<rparr>
     = ([ReadAddonsDirCall ''web'', ReadAddonsFileCall ''web'' ''params.yaml'',
         ReadAddonsFileCall ''web'' ''outputs.yaml'', ReadAddonsFileCall ''web'' ''s3-bucket.yaml'',
         ParseCall ''addons/cf.yml''
           \<lparr>SvcName = ''web'',
            Parameters = [''Param1:'', ''  Type: String''],
            Resources = [''Bucket:'', ''  Type: AWS::S3::Bucket''],
            Outputs = [''Output1:'', ''  Value: foo'']\<rparr>],
        (''addons/cf.yml web P:Param1:;  Type: String; R:Bucket:;  Type: AWS::S3::Bucket; O:Output1:;  Value: foo;'',
         None))
   \<and> Template \<lparr>svcName = ''web'', parser = failingParser,
       ws = dirWorkspace (Inr [''params.yaml'', ''outputs.yaml'', ''s3-bucket.yaml''])
              [(''params.yaml'', ''Param1:\<newline>  Type: String''),
               (''outputs.yaml'', ''Output1:\<newline>  Value: foo''),
               (''s3-bucket.yaml'', ''Bucket:\<newline>  Type: AWS::S3::Bucket'')]\<rparr>
     = ([ReadAddonsDirCall ''web'', ReadAddonsFileCall ''web'' ''params.yaml'',
         ReadAddonsFileCall ''web'' ''outputs.yaml'', ReadAddonsFileCall ''web'' ''s3-bucket.yaml'',
         ParseCall ''addons/cf.yml''
           \<lparr>SvcName = ''web'',
            Parameters = [''Param1:'', ''  Type: String''],
            Resources = [''Bucket:'', ''  Type: AWS::S3::Bucket''],
            Outputs = [''Output1:'', ''  Value: foo'']\<rparr>],
        ([], Some (Returned (GoError ''parse addons/cf.yml''))))"
proof -
  define W where "W = dirWorkspace (Inr [''params.yaml'', ''outputs.yaml'', ''s3-bucket.yaml''])
              [(''params.yaml'', ''Param1:\<newline>  Type: String''),
               (''outputs.yaml'', ''Output1:\<newline>  Value: foo''),
               (''s3-bucket.yaml'', ''Bucket:\<newline>  Type: AWS::S3::Bucket'')]"
  define A where "A = \<lparr>svcName = ''web'', parser = linesParser, ws = W\<rparr>"
  define B where "B = \<lparr>svcName = ''web'', parser = failingParser, ws = W\<rparr>"
  define M where "M = [''params'' \<mapsto> ''Param1:\<newline>  Type: String'',
                        ''outputs'' \<mapsto> ''Output1:\<newline>  Value: foo'',
                        ''resources'' \<mapsto> ''Bucket:\<newline>  Type: AWS::S3::Bucket\<newline>'']"
  have trims: "TrimSpace ''Param1:\<newline>  Type: String'' = ''Param1:\<newline>  Type: String''"
    "TrimSpace ''Output1:\<newline>  Value: foo'' = ''Output1:\<newline>  Value: foo''"
    "TrimSpace ''Bucket:\<newline>  Type: AWS::S3::Bucket'' = ''Bucket:\<newline>  Type: AWS::S3::Bucket''"
    by code_simp+
  have dirA: "ReadAddonsDir (ws A) (svcName A) = Inr [''params.yaml'', ''outputs.yaml'', ''s3-bucket.yaml'']"
    and dirB: "ReadAddonsDir (ws B) (svcName B) = Inr [''params.yaml'', ''outputs.yaml'', ''s3-bucket.yaml'']"
    by (simp_all add: A_def B_def W_def dirWorkspace_def)
  have aggA: "aggregate A = Some M" and aggB: "aggregate B = Some M"
    by (simp_all add: A_def B_def W_def M_def dirWorkspace_def aggregate_def Ext_def
        yamlExtensions_def trims addFile_def TrimSuffix_def HasSuffix_def lookup_def
        paramsFileWithoutExt_def outputsFileWithoutExt_def resourcesFiles_def)
  have ok: "validateNoMissingFiles M = None"
    by (simp add: validateNoMissingFiles_None M_def lookup_def paramsFileWithoutExt_def
        outputsFileWithoutExt_def resourcesFiles_def)
  have tA: "Template A
     = ([ReadAddonsDirCall ''web'', ReadAddonsFileCall ''web'' ''params.yaml'',
         ReadAddonsFileCall ''web'' ''outputs.yaml'', ReadAddonsFileCall ''web'' ''s3-bucket.yaml'',
         ParseCall ''addons/cf.yml''
           \<lparr>SvcName = ''web'',
            Parameters = [''Param1:'', ''  Type: String''],
            Resources = [''Bucket:'', ''  Type: AWS::S3::Bucket''],
            Outputs = [''Output1:'', ''  Value: foo'']\<rparr>],
        (''addons/cf.yml web P:Param1:;  Type: String; R:Bucket:;  Type: AWS::S3::Bucket; O:Output1:;  Value: foo;'',
         None))"
    apply (subst Template_renders [OF dirA aggA ok])
    unfolding A_def M_def
    by code_simp
  have tB: "Template B
     = ([ReadAddonsDirCall ''web'', ReadAddonsFileCall ''web'' ''params.yaml'',
         ReadAddonsFileCall ''web'' ''outputs.yaml'', ReadAddonsFileCall ''web'' ''s3-bucket.yaml'',
         ParseCall ''addons/cf.yml''
           \<lparr>SvcName = ''web'',
            Parameters = [''Param1:'', ''  Type: String''],
            Resources = [''Bucket:'', ''  Type: AWS::S3::Bucket''],
            Outputs = [''Output1:'', ''  Value: foo'']\<rparr>],
        ([], Some (Returned (GoError ''parse addons/cf.yml''))))"
    apply (subst Template_renders [OF dirB aggB ok])
    unfolding B_def M_def
    by code_simp
  from dirA tA tB show ?thesis
    unfolding A_def B_def W_def by simp
qed


subsection \<open>Failure of a read\<close>

text \<open>
  C7. When the read of some retained file fails, \<open>Template\<close> stops at the first retained
  file \<open>g\<close> whose read fails: it has read the files before \<open>g\<close> and \<open>g\<close>, reads
  nothing after it, does not call the parser, and returns the empty text with the error
  of that read wrapped in a message that names the file and the service.
\<close>

theorem Template_read_error:
  assumes "ReadAddonsDir (ws a) (svcName a) = Inr fileNames"
    and "f \<in> set (filterYAMLfiles fileNames)"
    and "ReadAddonsFile (ws a) (svcName a) f = Inl e"
  shows "\<exists>pre g post e'.
           filterYAMLfiles fileNames = pre @ g # post
         \<and> (\<forall>h \<in> set pre. \<exists>c. ReadAddonsFile (ws a) (svcName a) h = Inr c)
         \<and> ReadAddonsFile (ws a) (svcName a) g = Inl e'
         \<and> Template a =
             (ReadAddonsDirCall (svcName a) # map (ReadAddonsFileCall (svcName a)) (pre @ [g]),
              ([], Some (wrapError
                 (''read addons file '' @ g @ '' under service '' @ svcName a @ '': '' @ Error e')
                 e')))"
proof -
  let ?fails = "\<lambda>h. \<exists>e'. ReadAddonsFile (ws a) (svcName a) h = Inl e'"
  from assms(2,3) have "\<exists>h \<in> set (filterYAMLfiles fileNames). ?fails h" by blast
  then obtain pre g post where split: "filterYAMLfiles fileNames = pre @ g # post"
    and g: "?fails g" and pre: "\<forall>h \<in> set pre. \<not> ?fails h"
    using split_list_first_prop [of "filterYAMLfiles fileNames" ?fails] by blast
  from g obtain e' where e': "ReadAddonsFile (ws a) (svcName a) g = Inl e'" by blast
  have ok: "\<forall>h \<in> set pre. \<exists>c. ReadAddonsFile (ws a) (svcName a) h = Inr c"
  proof
    fix h assume "h \<in> set pre"
    with pre have "\<not> ?fails h" by blast
    then show "\<exists>c. ReadAddonsFile (ws a) (svcName a) h = Inr c"
      by (cases "ReadAddonsFile (ws a) (svcName a) h") auto
  qed
  have "Template a =
      (ReadAddonsDirCall (svcName a) # map (ReadAddonsFileCall (svcName a)) (pre @ [g]),
       ([], Some (wrapError
          (''read addons file '' @ g @ '' under service '' @ svcName a @ '': '' @ Error e')
          e')))"
    using assms(1) readAddonsFiles_fail [OF ok e', of post Map.empty]
    by (simp add: Template_def split)
  with split ok e' show ?thesis by blast
qed

theorem Template_read_error_witness:
  "ReadAddonsDir (ws \<lparr>svcName = ''web'', parser = linesParser,
       ws = dirWorkspace (Inr [''params.yaml'', ''gone.yaml'', ''outputs.yaml''])
              [(''params.yaml'', ''P: 1''), (''outputs.yaml'', ''O: 2'')]\<rparr>) ''web''
     = Inr [''params.yaml'', ''gone.yaml'', ''outputs.yaml'']
   \<and> ''gone.yaml'' \<in> set (filterYAMLfiles [''params.yaml'', ''gone.yaml'', ''outputs.yaml''])
   \<and> ReadAddonsFile (ws \<lparr>svcName = ''web'', parser = linesParser,
       ws = dirWorkspace (Inr [''params.yaml'', ''gone.yaml'', ''outputs.yaml''])
              [(''params.yaml'', ''P: 1''), (''outputs.yaml'', ''O: 2'')]\<rparr>) ''web'' ''gone.yaml''
     = Inl (GoError ''open gone.yaml: no such file or directory'')
   \<and> Template \<lparr>svcName = ''web'', parser = linesParser,
       ws = dirWorkspace (Inr [''params.yaml'', ''gone.yaml'', ''outputs.yaml''])
              [(''params.yaml'', ''P: 1''), (''outputs.yaml'', ''O: 2'')]\<rparr>
     = ([ReadAddonsDirCall ''web'', ReadAddonsFileCall ''web'' ''params.yaml'',
         ReadAddonsFileCall ''web'' ''gone.yaml''],
        ([], Some (wrapError
           ''read addons file gone.yaml under service web: open gone.yaml: no such file or directory''
           (GoError ''open gone.yaml: no such file or directory''))))"
proof -
  define names where "names = [''params.yaml'', ''gone.yaml'', ''outputs.yaml'']"
  define A where "A = \<lparr>svcName = ''web'', parser = linesParser,
       ws = dirWorkspace (Inr names) [(''params.yaml'', ''P: 1''), (''outputs.yaml'', ''O: 2'')]\<rparr>"
  have dir: "ReadAddonsDir (ws A) (svcName A) = Inr names"
    by (simp add: A_def dirWorkspace_def)
  have keep: "filterYAMLfiles names = [''params.yaml'', ''gone.yaml'', ''outputs.yaml'']"
    unfolding names_def by (simp add: Ext_def yamlExtensions_def)
  have listed: "''gone.yaml'' \<in> set (filterYAMLfiles names)"
    by (simp add: keep)
  have fails: "ReadAddonsFile (ws A) (svcName A) ''gone.yaml''
      = Inl (GoError ''open gone.yaml: no such file or directory'')"
    by (simp add: A_def dirWorkspace_def)
  from Template_read_error [OF dir listed fails] obtain pre g post e' where
    sp: "filterYAMLfiles names = pre @ g # post"
    and gf: "ReadAddonsFile (ws A) (svcName A) g = Inl e'"
    and t: "Template A =
             (ReadAddonsDirCall (svcName A) # map (ReadAddonsFileCall (svcName A)) (pre @ [g]),
              ([], Some (wrapError
                 (''read addons file '' @ g @ '' under service '' @ svcName A @ '': '' @ Error e')
                 e')))"
    by blast
  from sp have "g \<in> set (filterYAMLfiles names)" by simp
  with gf have g: "g = ''gone.yaml''"
    by (auto simp: keep A_def dirWorkspace_def)
  with gf fails have e': "e' = GoError ''open gone.yaml: no such file or directory''"
    by simp
  from sp g have pre: "pre = [''params.yaml'']"
    by (auto simp: keep append_eq_Cons_conv Cons_eq_append_conv)
  have "Template A
     = ([ReadAddonsDirCall ''web'', ReadAddonsFileCall ''web'' ''params.yaml'',
         ReadAddonsFileCall ''web'' ''gone.yaml''],
        ([], Some (wrapError
           ''read addons file gone.yaml under service web: open gone.yaml: no such file or directory''
           (GoError ''open gone.yaml: no such file or directory''))))"
    unfolding t g e' pre by (simp add: A_def)
  with dir listed fails show ?thesis
    unfolding A_def names_def by simp
qed

subsection \<open>Determinism\<close>




subsection \<open>The text returned with an error\<close>

text \<open>
  C9. Whenever \<open>Template\<close> returns an error (the listing failed, a read failed, files
  are missing or the parser failed), the text it returns is the empty string.
\<close>

theorem Template_text_empty_on_error:
  "error_of a \<noteq> None \<Longrightarrow> text_of a = []"
  by (auto simp: text_of_def error_of_def Template_def
      split: sum.splits prod.splits option.splits)

theorem Template_text_empty_on_error_witness:
  "error_of \<lparr>svcName = ''web'', parser = failingParser,
       ws = dirWorkspace (Inr [''params.yaml'', ''outputs.yaml'', ''s3.yaml''])
              [(''params.yaml'', ''P: 1''), (''outputs.yaml'', ''O: 2''), (''s3.yaml'', ''B: 3'')]\<rparr>
     \<noteq> None
   \<and> text_of \<lparr>svcName = ''web'', parser = failingParser,
       ws = dirWorkspace (Inr [''params.yaml'', ''outputs.yaml'', ''s3.yaml''])
              [(''params.yaml'', ''P: 1''), (''outputs.yaml'', ''O: 2''), (''s3.yaml'', ''B: 3'')]\<rparr>
     = []"
proof -
  have h: "error_of \<lparr>svcName = ''web'', parser = failingParser,
       ws = dirWorkspace (Inr [''params.yaml'', ''outputs.yaml'', ''s3.yaml''])
              [(''params.yaml'', ''P: 1''), (''outputs.yaml'', ''O: 2''), (''s3.yaml'', ''B: 3'')]\<rparr>
     \<noteq> None"
    by code_simp
  from Template_text_empty_on_error [OF h] h show ?thesis by blast
qed

end
